theory Spec2Isabelle
  imports Main "HOL-Library.Word"
begin

unbundle bit_operations_syntax

section \<open>Go values used by message.go\<close>

type_synonym byte = "8 word"
type_synonym uint16 = "16 word"

text \<open>
  A Go slice \<^verbatim>\<open>[]byte\<close> is a window on a backing array: \<open>elems\<close> are the
  \<^verbatim>\<open>len\<close> bytes the slice shows, \<open>spare\<close> the bytes of the backing array between
  \<^verbatim>\<open>len\<close> and \<^verbatim>\<open>cap\<close>, which a reslice can reach. This view by value serves
  \<^verbatim>\<open>readLPBytes\<close>, which only reads its argument.
\<close>

record slice =
  elems :: "byte list"
  spare :: "byte list"

definition len :: "slice \<Rightarrow> nat" where
  "len s = length (elems s)"

definition cap :: "slice \<Rightarrow> nat" where
  "cap s = length (elems s) + length (spare s)"

definition nil_slice :: slice where
  "nil_slice = \<lparr>elems = [], spare = []\<rparr>"

text \<open>A call either returns or ends in a run-time panic.\<close>

datatype 'a go_result = Panics | Returns 'a

text \<open>
  \<^verbatim>\<open>s[lo:hi]\<close>: Go checks \<^verbatim>\<open>0 <= lo <= hi <= cap(s)\<close> and panics otherwise; the bound is
  the capacity, not the length.
\<close>

definition reslice :: "slice \<Rightarrow> nat \<Rightarrow> nat \<Rightarrow> slice go_result" where
  "reslice s lo hi =
     (if lo \<le> hi \<and> hi \<le> cap s
      then Returns \<lparr>elems = take (hi - lo) (drop lo (elems s @ spare s)),
                    spare = drop hi (elems s @ spare s)\<rparr>
      else Panics)"

text \<open>
  \<^verbatim>\<open>fmt.Errorf(format, args...)\<close>: the error value is kept as the format string with
  its integer arguments.
\<close>

datatype fmt_error = Errorf string "nat list"

text \<open>
  \<^verbatim>\<open>binary.BigEndian.Uint16\<close> of the standard library; it starts with the bounds check
  \<^verbatim>\<open>_ = b[1]\<close>.
\<close>

definition Uint16 :: "byte list \<Rightarrow> uint16 go_result" where
  "Uint16 b =
     (if length b < 2 then Panics
      else Returns (ucast (b ! 1) OR push_bit 8 (ucast (b ! 0))))"

section \<open>Slices in a shared memory\<close>








section \<open>message.go\<close>


text \<open>
  \<^verbatim>\<open>ValidConnackError\<close> compares its argument with five error values of the package.
  Their declarations are outside the files at hand, so the five values are a parameter of
  the model: a record of the package's variables.
\<close>

record 'e connack_errors =
  ErrInvalidProtocolVersion :: 'e
  ErrIdentifierRejected :: 'e
  ErrServerUnavailable :: 'e
  ErrBadUsernameOrPassword :: 'e
  ErrNotAuthorized :: 'e

definition ValidConnackError :: "'e connack_errors \<Rightarrow> 'e \<Rightarrow> bool" where
  "ValidConnackError pkg err =
     (err = ErrInvalidProtocolVersion pkg \<or> err = ErrIdentifierRejected pkg \<or>
      err = ErrServerUnavailable pkg \<or> err = ErrBadUsernameOrPassword pkg \<or>
      err = ErrNotAuthorized pkg)"

text \<open>
  \<^verbatim>\<open>readLPBytes\<close> returns the triple (bytes, count, error); a \<^verbatim>\<open>nil\<close> error is \<open>None\<close>.
\<close>

definition readLPBytes :: "slice \<Rightarrow> (slice \<times> nat \<times> fmt_error option) go_result" where
  "readLPBytes buf =
     (if len buf < 2
      then Returns (nil_slice, 0,
        Some (Errorf ''utils/readLPBytes: Insufficient buffer size. Expecting %d, got %d.''
          [2, len buf]))
      else
        case Uint16 (elems buf) of
          Panics \<Rightarrow> Panics
        | Returns v \<Rightarrow>
            (let n = unat v; total = 2 in
             if len buf < n
             then Returns (nil_slice, total,
               Some (Errorf ''utils/readLPBytes: Insufficient buffer size. Expecting %d, got %d.''
                 [n, len buf]))
             else
               (let total = total + n in
                (case reslice buf 2 total of
                   Panics \<Rightarrow> Panics
                 | Returns r \<Rightarrow> Returns (r, total, None)))))"


section \<open>The packet-ID counter\<close>

text \<open>
  Modelled from the spec: the counter of the client package, whose code is not among the
  files at hand (its test \<^verbatim>\<open>TestCounter\<close> is, and reads the field \<^verbatim>\<open>id\<close> as a
  \<^verbatim>\<open>uint16\<close>). The spec: a single 16-bit field; \<^verbatim>\<open>next()\<close> returns the current
  value, then increments it, wrapping from 65535 to 0. The field is named \<open>counter_id\<close>
  and the method \<open>counter_next\<close> here.
\<close>

record counter =
  counter_id :: uint16

definition newCounter :: counter where
  "newCounter = \<lparr>counter_id = 0\<rparr>"

definition counter_next :: "counter \<Rightarrow> uint16 \<times> counter" where
  "counter_next c = (counter_id c, c\<lparr>counter_id := counter_id c + 1\<rparr>)"

section \<open>Big-endian length prefix\<close>



lemma Uint16_bytes:
  "Uint16 (x # y # r) = Returns (ucast y OR push_bit 8 (ucast x))"
  by (simp add: Uint16_def)

section \<open>writeLPBytes\<close>











section \<open>readLPBytes\<close>

text \<open>
  When the buffer has its two prefix bytes, the call returns without error exactly when
  the prefix \<open>n\<close> is at most \<open>len buf\<close> and \<open>2 + n\<close> is at most \<open>cap buf\<close>; the count it
  returns is then \<open>2 + n\<close> and the slice has \<open>n\<close> bytes.
\<close>

lemma readLPBytes_no_error_iff:
  assumes "Uint16 (elems buf) = Returns v"
  shows "(\<exists>r t. readLPBytes buf = Returns (r, t, None)) \<longleftrightarrow>
           unat v \<le> len buf \<and> 2 + unat v \<le> cap buf"
proof -
  from assms have "2 \<le> len buf"
    by (auto simp: Uint16_def len_def split: if_splits)
  with assms show ?thesis
    by (auto simp: readLPBytes_def reslice_def Let_def split: go_result.splits)
qed

lemma readLPBytes_total:
  assumes "readLPBytes buf = Returns (r, t, None)"
  shows "\<exists>v. Uint16 (elems buf) = Returns v \<and> t = 2 + unat v \<and> len r = unat v"
  using assms
  by (auto simp: readLPBytes_def reslice_def Let_def len_def cap_def
      split: go_result.splits if_splits)

text \<open>
  C9. The claim: whenever \<^verbatim>\<open>readLPBytes\<close> returns without error, \<open>buf\<close> has at least
  \<open>2 + n\<close> bytes, \<open>n\<close> being the length prefix, so that \<^verbatim>\<open>buf[2:2+n]\<close> is in bounds. The
  code compares \<open>len buf\<close> with \<open>n\<close>, not with \<open>2 + n\<close>. On the three bytes \<open>00 02 41\<close>
  (prefix 2, one byte of payload) both checks pass and the code slices \<^verbatim>\<open>buf[2:4]\<close>:
  with no spare capacity the call panics; with one spare byte \<open>42\<close> behind the buffer it
  returns four as the count and a slice that holds that byte from beyond \<open>len buf\<close>.
\<close>

theorem readLPBytes_reads_past_len:
  "readLPBytes \<lparr>elems = [0x00, 0x02, 0x41], spare = []\<rparr> = Panics \<and>
   readLPBytes \<lparr>elems = [0x00, 0x02, 0x41], spare = [0x42]\<rparr> =
     Returns (\<lparr>elems = [0x41, 0x42], spare = []\<rparr>, 4, None)"
  by (simp add: readLPBytes_def len_def cap_def Uint16_def reslice_def)

section \<open>ValidConnackError\<close>

text \<open>
  C6. An error value is a CONNACK refusal exactly when it is one of the five values
  \<^verbatim>\<open>ErrInvalidProtocolVersion\<close>, \<^verbatim>\<open>ErrIdentifierRejected\<close>, \<^verbatim>\<open>ErrServerUnavailable\<close>,
  \<^verbatim>\<open>ErrBadUsernameOrPassword\<close>, \<^verbatim>\<open>ErrNotAuthorized\<close>.
\<close>

theorem ValidConnackError_iff:
  "ValidConnackError pkg err \<longleftrightarrow>
     err \<in> {ErrInvalidProtocolVersion pkg, ErrIdentifierRejected pkg, ErrServerUnavailable pkg,
            ErrBadUsernameOrPassword pkg, ErrNotAuthorized pkg}"
  by (auto simp: ValidConnackError_def)

section \<open>Counter\<close>

text \<open>
  C4. \<^verbatim>\<open>next()\<close> returns the current value of the field and leaves it at
  \<open>(id + 1) mod 65536\<close>; a fresh counter first returns 0; at 65535 the call returns 65535
  and the call after it returns 0.
\<close>

theorem counter_next_wraps:
  "fst (counter_next c) = counter_id c \<and>
   unat (counter_id (snd (counter_next c))) = (unat (counter_id c) + 1) mod 65536 \<and>
   fst (counter_next newCounter) = 0 \<and>
   fst (counter_next \<lparr>counter_id = 65535\<rparr>) = 65535 \<and>
   fst (counter_next (snd (counter_next \<lparr>counter_id = 65535\<rparr>))) = 0"
  by (simp add: counter_next_def newCounter_def unat_word_ariths)

end
